theory Spec2Isabelle
  imports Main
begin

section \<open>The network-last-request widget (docs/js/index.mjs)\<close>

text \<open>
  The component wraps \<^verbatim>\<open>window.fetch\<close> and three methods of
  \<^verbatim>\<open>XMLHttpRequest.prototype\<close>, keeps the most recent request in
  \<^verbatim>\<open>lastRequest\<close> and renders it as an HTTP message.  The development
  embeds its methods as HOL functions: JavaScript values are a datatype, a thrown
  exception is a value, the objects that the code shares by reference live in a
  store, and the calls handed on to the original platform functions are results.
\<close>

subsection \<open>Strings\<close>

text \<open>
  A JavaScript string is modelled as a \<^typ>\<open>string\<close> whose characters are the code
  units below U+0100.  In that range the characters removed by
  \<^verbatim>\<open>String.prototype.trim\<close> (WhiteSpace and LineTerminator of ECMAScript) are
  TAB, LF, VT, FF, CR, SP and NBSP.
\<close>

definition LF :: char where
  "LF = CHR 0x0A"

definition is_whitespace :: "char \<Rightarrow> bool" where
  "is_whitespace c = (c \<in> set [CHR 0x09, CHR 0x0A, CHR 0x0B, CHR 0x0C, CHR 0x0D, CHR 0x20, CHR 0xA0])"

definition trim :: "string \<Rightarrow> string" where
  "trim s = rev (dropWhile is_whitespace (rev (dropWhile is_whitespace s)))"

definition startsWith :: "string \<Rightarrow> string \<Rightarrow> bool" where
  "startsWith s p = (take (length p) s = p)"

definition endsWith :: "string \<Rightarrow> string \<Rightarrow> bool" where
  "endsWith s p = (length p \<le> length s \<and> drop (length s - length p) s = p)"

fun includes_str :: "string \<Rightarrow> string \<Rightarrow> bool" where
  "includes_str [] p = (p = [])"
| "includes_str (c # cs) p = (startsWith (c # cs) p \<or> includes_str cs p)"

text \<open>\<^verbatim>\<open>'  '.repeat(indent)\<close>\<close>

definition repeat :: "string \<Rightarrow> nat \<Rightarrow> string" where
  "repeat s n = concat (replicate n s)"

text \<open>\<^verbatim>\<open>parts.join(sep)\<close>\<close>

fun join :: "string list \<Rightarrow> string \<Rightarrow> string" where
  "join [] sep = []"
| "join [x] sep = x"
| "join (x # y # ys) sep = x @ sep @ join (y # ys) sep"

text \<open>
  \<^verbatim>\<open>html.replace(/></g, '>\n<')\<close>: the matches of \<^verbatim>\<open>><\<close> are found left to
  right and do not overlap; the search resumes after the \<^verbatim>\<open><\<close> of a match.
\<close>

fun replace_tag_gaps :: "string \<Rightarrow> string" where
  "replace_tag_gaps (a # b # cs) =
     (if a = CHR ''>'' \<and> b = CHR ''<''
      then CHR ''>'' # LF # CHR ''<'' # replace_tag_gaps cs
      else a # replace_tag_gaps (b # cs))"
| "replace_tag_gaps cs = cs"

text \<open>\<^verbatim>\<open>text.split('\n')\<close>: the empty string splits into one empty line.\<close>

fun split_str :: "string \<Rightarrow> char \<Rightarrow> string list" where
  "split_str [] sep = [[]]"
| "split_str (c # cs) sep =
     (if c = sep then [] # split_str cs sep
      else (case split_str cs sep of [] \<Rightarrow> [[c]] | l # ls \<Rightarrow> (c # l) # ls))"

subsection \<open>The HTML formatter (formatHtml, lines 167-197)\<close>

text \<open>
  The body of the \<^verbatim>\<open>for\<close> loop, with the two variables it updates,
  \<^verbatim>\<open>indent\<close> and \<^verbatim>\<open>formatted\<close>, as arguments.
\<close>

fun formatHtml_loop :: "int \<Rightarrow> string \<Rightarrow> string list \<Rightarrow> string" where
  "formatHtml_loop indent formatted [] = formatted"
| "formatHtml_loop indent formatted (l # ls) =
     (let line = trim l in
      if line = [] then formatHtml_loop indent formatted ls
      else
        let indent1 = (if startsWith line ''</'' then max 0 (indent - 1) else indent);
            formatted1 = formatted @ repeat ''  '' (nat indent1) @ line @ [LF];
            indent2 =
              (if startsWith line ''<'' \<and> \<not> startsWith line ''</'' \<and> \<not> endsWith line ''/>''
               then (if \<not> includes_str line ''</'' then indent1 + 1 else indent1)
               else indent1)
        in formatHtml_loop indent2 formatted1 ls)"

definition formatHtml :: "string \<Rightarrow> string" where
  "formatHtml html = trim (formatHtml_loop 0 [] (split_str (replace_tag_gaps html) LF))"

subsection \<open>JavaScript values\<close>

text \<open>
  The values that the wrapped functions are applied to: \<^verbatim>\<open>undefined\<close>,
  \<^verbatim>\<open>null\<close>, booleans, strings, plain objects, and instances of the three
  platform classes that the code tests with \<^verbatim>\<open>instanceof\<close>.
  \<^item> \<open>JObject ps\<close> is an ordinary object whose prototype is \<^verbatim>\<open>Object.prototype\<close>
    and whose own properties are the enumerable data properties \<open>ps\<close>, listed in the
    order of \<^verbatim>\<open>Object.keys\<close>; the values of the universe hold no functions.
  \<^item> \<open>JHeaders es\<close> is a \<^verbatim>\<open>Headers\<close> instance; \<open>es\<close> are the (name, value)
    pairs in the order in which \<^verbatim>\<open>forEach\<close> presents them.
  \<^item> \<open>JRequest u m hs\<close> is a \<^verbatim>\<open>Request\<close> instance without a body, with its
    \<^verbatim>\<open>url\<close>, \<^verbatim>\<open>method\<close> and \<^verbatim>\<open>headers\<close>.
  \<^item> \<open>JFormData es\<close> is a \<^verbatim>\<open>FormData\<close> instance with the entries \<open>es\<close>; the
    value of an entry is a string or a \<^verbatim>\<open>File\<close>.
  Numbers, symbols, arrays and functions are outside the universe.
\<close>

datatype form_value = FormString string | FormFile

datatype jsval =
    JUndefined
  | JNull
  | JBool bool
  | JStr string
  | JObject "(string \<times> jsval) list"
  | JHeaders "(string \<times> string) list"
  | JRequest string string "(string \<times> string) list"
  | JFormData "(string \<times> form_value) list"

datatype error = TypeError

text \<open>
  The result of a wrapper: the call was handed on to the original function with the
  given argument list, or an exception left the wrapper before that (for the
  \<^verbatim>\<open>async\<close> fetch wrapper: the promise it returns is rejected).
\<close>

datatype outcome = Forwarded "jsval list" | Threw error

text \<open>Truthiness (ToBoolean), as tested by \<^verbatim>\<open>if\<close>, \<^verbatim>\<open>!\<close> and \<^verbatim>\<open>||\<close>.\<close>

fun truthy :: "jsval \<Rightarrow> bool" where
  "truthy JUndefined = False"
| "truthy JNull = False"
| "truthy (JBool b) = b"
| "truthy (JStr s) = (s \<noteq> [])"
| "truthy (JObject ps) = True"
| "truthy (JHeaders es) = True"
| "truthy (JRequest u m hs) = True"
| "truthy (JFormData es) = True"

text \<open>\<^verbatim>\<open>typeof v === 'object'\<close>\<close>

fun typeof_object :: "jsval \<Rightarrow> bool" where
  "typeof_object JUndefined = False"
| "typeof_object JNull = True"
| "typeof_object (JBool b) = False"
| "typeof_object (JStr s) = False"
| "typeof_object (JObject ps) = True"
| "typeof_object (JHeaders es) = True"
| "typeof_object (JRequest u m hs) = True"
| "typeof_object (JFormData es) = True"

text \<open>The value is an object (the ECMAScript type Object).\<close>

definition is_object :: "jsval \<Rightarrow> bool" where
  "is_object v = (typeof_object v \<and> v \<noteq> JNull)"

definition has_key :: "(string \<times> 'v) list \<Rightarrow> string \<Rightarrow> bool" where
  "has_key ps k = (k \<in> set (map fst ps))"

text \<open>
  ToString, as applied by a template literal \<^verbatim>\<open>`${v}`\<close> and to a computed
  property key.  An object is converted by its \<^verbatim>\<open>toString\<close> method: the inherited
  one gives \<^verbatim>\<open>[object Class]\<close>; an own property \<^verbatim>\<open>toString\<close> shadows it, and as
  it is no function here, neither it nor the inherited \<^verbatim>\<open>valueOf\<close> yields a
  primitive and the conversion throws a TypeError.
\<close>

fun to_string :: "jsval \<Rightarrow> error + string" where
  "to_string JUndefined = Inr ''undefined''"
| "to_string JNull = Inr ''null''"
| "to_string (JBool b) = Inr (if b then ''true'' else ''false'')"
| "to_string (JStr s) = Inr s"
| "to_string (JObject ps) =
     (if has_key ps ''toString'' then Inl TypeError else Inr ''[object Object]'')"
| "to_string (JHeaders es) = Inr ''[object Headers]''"
| "to_string (JRequest u m hs) = Inr ''[object Request]''"
| "to_string (JFormData es) = Inr ''[object FormData]''"

text \<open>
  The method call \<^verbatim>\<open>v.toString()\<close>: reading a property of \<^verbatim>\<open>undefined\<close> or
  \<^verbatim>\<open>null\<close> throws a TypeError, and so does calling an own \<^verbatim>\<open>toString\<close> that is
  no function.
\<close>

fun call_toString :: "jsval \<Rightarrow> error + string" where
  "call_toString JUndefined = Inl TypeError"
| "call_toString JNull = Inl TypeError"
| "call_toString v = to_string v"

text \<open>
  The property read \<^verbatim>\<open>v.k\<close> of a value other than \<^verbatim>\<open>undefined\<close> and
  \<^verbatim>\<open>null\<close>, for the names the code reads (\<^verbatim>\<open>headers\<close>, \<^verbatim>\<open>method\<close>,
  \<^verbatim>\<open>body\<close>, \<^verbatim>\<open>url\<close>): none of them is defined by \<^verbatim>\<open>Object.prototype\<close>, by
  the wrappers of the primitives, by \<^verbatim>\<open>Headers\<close> or by \<^verbatim>\<open>FormData\<close>.
\<close>

fun get_prop :: "jsval \<Rightarrow> string \<Rightarrow> jsval" where
  "get_prop (JObject ps) k = (case map_of ps k of Some v \<Rightarrow> v | None \<Rightarrow> JUndefined)"
| "get_prop (JRequest u m hs) k =
     (if k = ''url'' then JStr u
      else if k = ''method'' then JStr m
      else if k = ''headers'' then JHeaders hs
      else if k = ''body'' then JNull
      else JUndefined)"
| "get_prop v k = JUndefined"

text \<open>Optional chaining \<^verbatim>\<open>v?.k\<close>\<close>

definition opt_get :: "jsval \<Rightarrow> string \<Rightarrow> jsval" where
  "opt_get v k = (if v = JUndefined \<or> v = JNull then JUndefined else get_prop v k)"

text \<open>The \<open>i\<close>-th argument of a call; a missing argument reads as \<^verbatim>\<open>undefined\<close>.\<close>

definition arg :: "jsval list \<Rightarrow> nat \<Rightarrow> jsval" where
  "arg args i = (if i < length args then args ! i else JUndefined)"

subsection \<open>The objects that the wrappers build\<close>

text \<open>
  An object made by the literal \<^verbatim>\<open>{}\<close>: its own properties in the order of
  \<^verbatim>\<open>Object.keys\<close> and \<^verbatim>\<open>Object.entries\<close>, and its prototype, \<open>None\<close> for
  \<^verbatim>\<open>Object.prototype\<close> and \<open>Some v\<close> once an assignment to \<^verbatim>\<open>__proto__\<close> has
  replaced it by the object (or \<^verbatim>\<open>null\<close>) \<open>v\<close>.
\<close>

record jsobject =
  props :: "(string \<times> jsval) list"
  proto :: "jsval option"

definition empty_object :: jsobject where
  "empty_object = \<lparr>props = [], proto = None\<rparr>"

text \<open>
  The own property keys of an ordinary object are ordered (OrdinaryOwnPropertyKeys):
  first the array indices, ascending, then the other strings in the order of their
  creation.  An array index is the canonical decimal form of an integer from 0 to
  \<open>2\<^sup>3\<^sup>2 - 2\<close>.
\<close>

definition is_digit :: "char \<Rightarrow> bool" where
  "is_digit c = (c \<in> set ''0123456789'')"

definition digits_value :: "string \<Rightarrow> nat" where
  "digits_value k = foldl (\<lambda>n c. 10 * n + (of_char c - 48)) 0 k"

definition array_index :: "string \<Rightarrow> nat option" where
  "array_index k =
     (if k \<noteq> [] \<and> list_all is_digit k \<and> (if hd k = CHR ''0'' then k = ''0'' else True)
         \<and> digits_value k < 4294967295
      then Some (digits_value k) else None)"

fun insert_index :: "nat \<Rightarrow> string \<times> jsval \<Rightarrow> (string \<times> jsval) list \<Rightarrow> (string \<times> jsval) list" where
  "insert_index i e [] = [e]"
| "insert_index i e (p # ps) =
     (case array_index (fst p) of
        Some j \<Rightarrow> (if j < i then p # insert_index i e ps else e # p # ps)
      | None \<Rightarrow> e # p # ps)"

text \<open>A new own property \<open>k\<close> takes its place in the key order.\<close>

definition insert_prop :: "(string \<times> jsval) list \<Rightarrow> string \<Rightarrow> jsval \<Rightarrow> (string \<times> jsval) list" where
  "insert_prop ps k v =
     (case array_index k of Some i \<Rightarrow> insert_index i (k, v) ps | None \<Rightarrow> ps @ [(k, v)])"

text \<open>An own property that exists keeps its place and takes the new value.\<close>

definition update_prop :: "(string \<times> jsval) list \<Rightarrow> string \<Rightarrow> jsval \<Rightarrow> (string \<times> jsval) list" where
  "update_prop ps k v = map (\<lambda>p. if fst p = k then (k, v) else p) ps"

text \<open>
  CreateDataProperty, the step of an object spread: the own property is written or
  created whatever the prototype chain holds.
\<close>

definition define_prop :: "(string \<times> jsval) list \<Rightarrow> string \<Rightarrow> jsval \<Rightarrow> (string \<times> jsval) list" where
  "define_prop ps k v = (if has_key ps k then update_prop ps k v else insert_prop ps k v)"

text \<open>
  The readonly attributes of the \<^verbatim>\<open>Request\<close> interface (Fetch Standard): accessor
  properties of \<^verbatim>\<open>Request.prototype\<close> without a setter.
\<close>

definition request_attributes :: "string list" where
  "request_attributes =
     [''method'', ''url'', ''headers'', ''destination'', ''referrer'', ''referrerPolicy'',
      ''mode'', ''credentials'', ''cache'', ''redirect'', ''integrity'', ''keepalive'',
      ''isReloadNavigation'', ''isHistoryNavigation'', ''signal'', ''duplex'',
      ''body'', ''bodyUsed'']"

text \<open>
  What the prototype chain holds for a key that is no own property.  The chain of a
  \<^verbatim>\<open>Request\<close> instance has the readonly attributes.  For the key
  \<^verbatim>\<open>__proto__\<close> the chain ends at the accessor of \<^verbatim>\<open>Object.prototype\<close>, unless
  the prototype is \<^verbatim>\<open>null\<close> or an object with an own data property of that name.
\<close>

fun inherits_readonly :: "jsval option \<Rightarrow> string \<Rightarrow> bool" where
  "inherits_readonly (Some (JRequest u m hs)) k = (k \<in> set request_attributes)"
| "inherits_readonly p k = False"

fun inherits_proto_accessor :: "jsval option \<Rightarrow> bool" where
  "inherits_proto_accessor None = True"
| "inherits_proto_accessor (Some JNull) = False"
| "inherits_proto_accessor (Some (JObject ps)) = (\<not> has_key ps ''__proto__'')"
| "inherits_proto_accessor (Some v) = True"

text \<open>
  The assignment \<^verbatim>\<open>obj[k] = v\<close> in strict code (OrdinarySet): an own property is
  overwritten; an inherited accessor without setter makes the assignment throw; the
  inherited accessor \<^verbatim>\<open>__proto__\<close> replaces the prototype when \<open>v\<close> is an object or
  \<^verbatim>\<open>null\<close> and does nothing for any other \<open>v\<close>, and in both cases creates no
  property; otherwise a new own property is created.
\<close>

definition set_prop :: "jsobject \<Rightarrow> string \<Rightarrow> jsval \<Rightarrow> error + jsobject" where
  "set_prop obj k v =
     (if has_key (props obj) k then Inr (obj\<lparr>props := update_prop (props obj) k v\<rparr>)
      else if inherits_readonly (proto obj) k then Inl TypeError
      else if k = ''__proto__'' \<and> inherits_proto_accessor (proto obj)
      then Inr (if is_object v \<or> v = JNull then obj\<lparr>proto := Some v\<rparr> else obj)
      else Inr (obj\<lparr>props := insert_prop (props obj) k v\<rparr>))"

text \<open>
  The spread \<^verbatim>\<open>{ ...v }\<close> of a value with \<^verbatim>\<open>typeof v === 'object'\<close>: the own
  enumerable properties of \<open>v\<close> are defined one by one on a new object.  The
  instances of the platform classes have none.
\<close>

fun spread :: "jsval \<Rightarrow> jsobject" where
  "spread (JObject ps) = \<lparr>props = foldl (\<lambda>acc p. define_prop acc (fst p) (snd p)) [] ps, proto = None\<rparr>"
| "spread v = empty_object"

subsection \<open>Request details, the store and the component\<close>

text \<open>
  The object that both wrappers build (lines 89-95 and 111-116).  \<^verbatim>\<open>new Date()\<close>
  is the reading \<open>now\<close> of the clock, an argument of the wrappers.  The object made
  by \<^verbatim>\<open>open\<close> has no \<^verbatim>\<open>body\<close> property until \<^verbatim>\<open>send\<close>; reading it gives
  \<^verbatim>\<open>undefined\<close>, which is the value of the field here.
\<close>

record request =
  "method" :: jsval
  url :: jsval
  headers :: jsobject
  body :: jsval
  timestamp :: nat

text \<open>
  The request objects are shared by reference: \<^verbatim>\<open>send\<close> stores in the component
  the very object that \<^verbatim>\<open>setRequestHeader\<close> goes on to mutate.  They live in a
  store, at addresses; \<open>fresh\<close> is the next unused address.
\<close>

record store =
  cells :: "nat \<Rightarrow> request"
  fresh :: nat

definition alloc :: "store \<Rightarrow> request \<Rightarrow> nat \<times> store" where
  "alloc st r = (fresh st, st\<lparr>cells := (cells st)(fresh st := r), fresh := fresh st + 1\<rparr>)"

text \<open>
  A store in which nothing is allocated yet; the cells beyond \<open>fresh\<close> are never read.
\<close>

definition unallocated :: request where
  "unallocated =
     \<lparr>method = JUndefined, url = JUndefined, headers = empty_object, body = JUndefined,
      timestamp = 0\<rparr>"

definition new_store :: store where
  "new_store = \<lparr>cells = (\<lambda>a. unallocated), fresh = 0\<rparr>"

text \<open>
  What \<^verbatim>\<open>this.container\<close> shows: the placeholder
  \<^verbatim>\<open><div class="empty-state">No requests captured yet</div>\<close>, or the
  \<^verbatim>\<open>pre\<close>/\<^verbatim>\<open>code\<close> pair with the text given to \<^verbatim>\<open>code.textContent\<close>,
  whether \<^verbatim>\<open>hljs.highlightElement\<close> was applied to it, and the time stamp of which
  the \<^verbatim>\<open>timestamp\<close> element shows \<^verbatim>\<open>toLocaleTimeString()\<close>.
\<close>

datatype dom = EmptyState | HttpMessage string bool nat

record display =
  lastRequest :: "nat option"
  container :: dom

text \<open>The page around the component: whether \<^verbatim>\<open>window.hljs\<close> is there.\<close>

record env =
  hljs :: bool

subsection \<open>formatBody (lines 142-165)\<close>

fun form_value_string :: "form_value \<Rightarrow> string" where
  "form_value_string (FormString s) = s"
| "form_value_string FormFile = ''[object File]''"

text \<open>The result is \<open>None\<close> for \<^verbatim>\<open>null\<close>.\<close>

definition formatBody :: "jsval \<Rightarrow> error + string option" where
  "formatBody b =
     (if \<not> truthy b then Inr None
      else case b of
        JStr s \<Rightarrow>
          (if startsWith (trim s) ''<'' \<and> endsWith (trim s) ''>''
           then Inr (Some (formatHtml s))
           else Inr (Some s))
      | JFormData es \<Rightarrow>
          Inr (Some (join (map (\<lambda>e. fst e @ '': '' @ form_value_string (snd e)) es) [LF]))
      | _ \<Rightarrow> (case call_toString b of Inl e \<Rightarrow> Inl e | Inr s \<Rightarrow> Inr (Some s)))"

subsection \<open>render (lines 199-244)\<close>

text \<open>The loop over \<^verbatim>\<open>Object.entries(headers)\<close> (lines 212-214).\<close>

fun header_lines :: "string \<Rightarrow> (string \<times> jsval) list \<Rightarrow> error + string" where
  "header_lines httpMessage [] = Inr httpMessage"
| "header_lines httpMessage ((key, v) # es) =
     (case to_string v of
        Inl e \<Rightarrow> Inl e
      | Inr s \<Rightarrow> header_lines (httpMessage @ [LF] @ key @ '': '' @ s) es)"

text \<open>The text of the HTTP message (lines 205-221).\<close>

definition httpMessage :: "request \<Rightarrow> error + string" where
  "httpMessage r =
     (case to_string (method r) of Inl e \<Rightarrow> Inl e | Inr m \<Rightarrow>
      case to_string (url r) of Inl e \<Rightarrow> Inl e | Inr u \<Rightarrow>
      case (if length (props (headers r)) > 0
            then header_lines (m @ '' '' @ u @ '' HTTP/1.1'') (props (headers r))
            else Inr (m @ '' '' @ u @ '' HTTP/1.1'')) of Inl e \<Rightarrow> Inl e | Inr msg \<Rightarrow>
      case formatBody (body r) of Inl e \<Rightarrow> Inl e | Inr formattedBody \<Rightarrow>
        (case formattedBody of
           None \<Rightarrow> Inr msg
         | Some fb \<Rightarrow> if fb \<noteq> [] then Inr (msg @ [LF, LF] @ fb) else Inr msg))"

text \<open>
  The result is the component after the call and the exception that left
  \<^verbatim>\<open>render\<close>, if any.  An exception can only leave it before the container is
  touched.
\<close>

definition render :: "env \<Rightarrow> store \<Rightarrow> display \<Rightarrow> display \<times> error option" where
  "render w st d =
     (case lastRequest d of
        None \<Rightarrow> (d\<lparr>container := EmptyState\<rparr>, None)
      | Some a \<Rightarrow>
          (case httpMessage (cells st a) of
             Inl e \<Rightarrow> (d, Some e)
           | Inr msg \<Rightarrow>
               (d\<lparr>container := HttpMessage msg (hljs w) (timestamp (cells st a))\<rparr>, None)))"

text \<open>
  The component after its constructor (lines 5-57): no request, and the first
  \<^verbatim>\<open>render()\<close> has put the placeholder into the container.
\<close>

definition new_display :: display where
  "new_display = \<lparr>lastRequest = None, container = EmptyState\<rparr>"

subsection \<open>The fetch wrapper (lines 64-103)\<close>

text \<open>
  The callback of \<^verbatim>\<open>config.headers.forEach\<close> (lines 72-74), run for each entry
  of the collection on the object \<^verbatim>\<open>headers\<close>.
\<close>

fun forEach_assign :: "(string \<times> string) list \<Rightarrow> jsobject \<Rightarrow> error + jsobject" where
  "forEach_assign [] obj = Inr obj"
| "forEach_assign ((key, v) # es) obj =
     (case set_prop obj key (JStr v) of
        Inl e \<Rightarrow> Inl e
      | Inr obj' \<Rightarrow> forEach_assign es obj')"

text \<open>Lines 67-80: the value of \<^verbatim>\<open>headers\<close> for the options bag \<open>config\<close>.\<close>

definition extract_headers :: "jsval \<Rightarrow> error + jsobject" where
  "extract_headers config =
     (if truthy (opt_get config ''headers'')
      then (case opt_get config ''headers'' of
              JHeaders es \<Rightarrow> forEach_assign es empty_object
            | h \<Rightarrow> if typeof_object h then Inr (spread h) else Inr empty_object)
      else Inr empty_object)"

text \<open>Lines 82-86: the value of \<^verbatim>\<open>fullUrl\<close>.\<close>

definition resolve_url :: "jsval \<Rightarrow> error + string" where
  "resolve_url resource =
     (case call_toString resource of
        Inl e \<Rightarrow> Inl e
      | Inr s \<Rightarrow> (case resource of JRequest u m hs \<Rightarrow> Inr u | _ \<Rightarrow> Inr s))"

text \<open>Lines 65-95: the object \<^verbatim>\<open>requestDetails\<close> built from the arguments.\<close>

definition requestDetails :: "nat \<Rightarrow> jsval list \<Rightarrow> error + request" where
  "requestDetails now args =
     (let resource = arg args 0; config = arg args 1 in
      case extract_headers config of Inl e \<Rightarrow> Inl e | Inr hs \<Rightarrow>
      case resolve_url resource of Inl e \<Rightarrow> Inl e | Inr fullUrl \<Rightarrow>
        Inr \<lparr>method = (if truthy (opt_get config ''method'') then opt_get config ''method''
                       else JStr ''GET''),
             url = JStr fullUrl,
             headers = hs,
             body = opt_get config ''body'',
             timestamp = now\<rparr>)"

text \<open>
  The wrapper installed by the component \<open>d\<close>: it builds the request details,
  stores them in \<^verbatim>\<open>this.lastRequest\<close>, renders, and then calls the original
  \<^verbatim>\<open>fetch\<close> with \<^verbatim>\<open>args\<close>.  No statement of it is guarded by a handler.
\<close>

definition wrapped_fetch ::
  "env \<Rightarrow> nat \<Rightarrow> jsval list \<Rightarrow> store \<times> display \<Rightarrow> (store \<times> display) \<times> outcome" where
  "wrapped_fetch w now args s =
     (case requestDetails now args of
        Inl e \<Rightarrow> (s, Threw e)
      | Inr r \<Rightarrow>
          (let (a, st1) = alloc (fst s) r;
               d1 = (snd s)\<lparr>lastRequest := Some a\<rparr>
           in case render w st1 d1 of
                (d2, Some e) \<Rightarrow> ((st1, d2), Threw e)
              | (d2, None) \<Rightarrow> ((st1, d2), Forwarded args)))"

subsection \<open>The XMLHttpRequest wrappers (lines 110-139)\<close>

text \<open>
  Of an \<^verbatim>\<open>XMLHttpRequest\<close> object the wrappers use the property
  \<^verbatim>\<open>_requestDetails\<close>: \<open>None\<close> while it is \<^verbatim>\<open>undefined\<close>, else the address of
  the object that \<^verbatim>\<open>open\<close> made.
\<close>

record xhr =
  xhr_requestDetails :: "nat option"

definition new_xhr :: xhr where
  "new_xhr = \<lparr>xhr_requestDetails = None\<rparr>"

definition xhr_open :: "nat \<Rightarrow> jsval list \<Rightarrow> store \<times> xhr \<Rightarrow> (store \<times> xhr) \<times> outcome" where
  "xhr_open now args s =
     (let (a, st1) = alloc (fst s)
            \<lparr>method = arg args 0, url = arg args 1, headers = empty_object,
             body = JUndefined, timestamp = now\<rparr>
      in ((st1, (snd s)\<lparr>xhr_requestDetails := Some a\<rparr>), Forwarded args))"

definition xhr_setRequestHeader :: "jsval list \<Rightarrow> store \<times> xhr \<Rightarrow> (store \<times> xhr) \<times> outcome" where
  "xhr_setRequestHeader args s =
     (case xhr_requestDetails (snd s) of
        None \<Rightarrow> (s, Forwarded args)
      | Some a \<Rightarrow>
          (let st = fst s; r = cells st a in
           case to_string (arg args 0) of
             Inl e \<Rightarrow> (s, Threw e)
           | Inr header \<Rightarrow>
               (case set_prop (headers r) header (arg args 1) of
                  Inl e \<Rightarrow> (s, Threw e)
                | Inr hs \<Rightarrow>
                    ((st\<lparr>cells := (cells st)(a := r\<lparr>headers := hs\<rparr>)\<rparr>, snd s),
                     Forwarded args))))"

text \<open>
  \<open>component\<close> is the result of
  \<^verbatim>\<open>document.querySelector('network-last-request')\<close>: the first such element of
  the document, or \<open>None\<close> for \<^verbatim>\<open>null\<close>.
\<close>

definition xhr_send ::
  "env \<Rightarrow> jsval list \<Rightarrow> store \<times> xhr \<times> display option
     \<Rightarrow> (store \<times> xhr \<times> display option) \<times> outcome" where
  "xhr_send w args s =
     (case s of (st, x, component) \<Rightarrow>
      case xhr_requestDetails x of
        None \<Rightarrow> (s, Forwarded args)
      | Some a \<Rightarrow>
          (let st1 = st\<lparr>cells := (cells st)(a := (cells st a)\<lparr>body := arg args 0\<rparr>)\<rparr> in
           case component of
             None \<Rightarrow> ((st1, x, None), Forwarded args)
           | Some c \<Rightarrow>
               (let c1 = c\<lparr>lastRequest := Some a\<rparr> in
                case render w st1 c1 of
                  (c2, Some e) \<Rightarrow> ((st1, x, Some c2), Threw e)
                | (c2, None) \<Rightarrow> ((st1, x, Some c2), Forwarded args))))"

section \<open>Properties\<close>

lemmas string_defs = trim_def startsWith_def endsWith_def repeat_def is_whitespace_def LF_def

lemmas key_defs = has_key_def array_index_def is_digit_def digits_value_def insert_prop_def
  update_prop_def define_prop_def

lemmas fetch_defs = wrapped_fetch_def requestDetails_def arg_def extract_headers_def opt_get_def
  resolve_url_def alloc_def empty_object_def

lemmas render_defs = render_def httpMessage_def formatBody_def

subsection \<open>The formatters\<close>

text \<open>
  Claim C6.  \<^verbatim>\<open>formatHtml("<div><span>x</span></div>")\<close> is a text of exactly three
  lines: \<^verbatim>\<open><div>\<close> without indentation, \<^verbatim>\<open><span>x</span>\<close> behind two spaces
  (indent level 1), and \<^verbatim>\<open></div>\<close> without indentation.
\<close>

theorem formatHtml_div_span:
  "formatHtml ''<div><span>x</span></div>'' =
     ''<div>'' @ [LF] @ ''  <span>x</span>'' @ [LF] @ ''</div>''
   \<and> split_str (formatHtml ''<div><span>x</span></div>'') LF =
     [''<div>'', ''  <span>x</span>'', ''</div>'']"
  by (simp add: formatHtml_def string_defs)

text \<open>
  Claim C5, as the code has it.  Line 143 returns \<^verbatim>\<open>null\<close> for every falsy body
  before the type of the body is looked at, so the empty string is not returned
  unchanged.  Every other string that does not, after trimming, both start with
  \<^verbatim>\<open><\<close> and end with \<^verbatim>\<open>>\<close> is returned unchanged.
\<close>

theorem formatBody_plain_string:
  assumes "s \<noteq> []"
      and "\<not> (startsWith (trim s) ''<'' \<and> endsWith (trim s) ''>'')"
  shows "formatBody (JStr s) = Inr (Some s)"
  using assms by (auto simp add: formatBody_def)

theorem formatBody_plain_string_witness:
  "formatBody (JStr ''hello'') = Inr (Some ''hello'')
   \<and> formatBody (JStr ''<b>bold</b> text'') = Inr (Some ''<b>bold</b> text'')"
  using formatBody_plain_string [of "''hello''"]
    formatBody_plain_string [of "''<b>bold</b> text''"]
  by (simp add: string_defs)

text \<open>
  The empty string does not start with \<^verbatim>\<open><\<close>, and \<^verbatim>\<open>formatBody("")\<close> is
  \<^verbatim>\<open>null\<close>, not the string.
\<close>

theorem formatBody_empty_string:
  "\<not> (startsWith (trim []) ''<'' \<and> endsWith (trim []) ''>'')
   \<and> formatBody (JStr []) = Inr None
   \<and> formatBody (JStr []) \<noteq> Inr (Some [])"
  by (simp add: formatBody_def string_defs)

subsection \<open>Rendering\<close>

text \<open>
  Claim C9.  For every state of the component, with a stored request or with none,
  a second call of \<^verbatim>\<open>render\<close> right after the first gives the same result as the
  first: the same container content (or the same exception) and the same component.
\<close>

theorem render_idempotent:
  "render w st (fst (render w st d)) = render w st d
   \<and> container (fst (render w st (fst (render w st d)))) = container (fst (render w st d))"
  by (auto simp add: render_def split: option.splits sum.splits)

subsection \<open>Own properties of the header object\<close>

lemma fst_update_prop: "map fst (update_prop ps k v) = map fst ps"
  by (induction ps) (auto simp add: update_prop_def)

lemma map_of_update_prop:
  "map_of (update_prop ps k v) x = (if x = k then map_option (\<lambda>_. v) (map_of ps x) else map_of ps x)"
  by (induction ps) (auto simp add: update_prop_def)

lemma fst_insert_index: "fst ` set (insert_index i (k, v) ps) = insert k (fst ` set ps)"
  by (induction ps) (auto split: option.splits)

lemma distinct_insert_index:
  "k \<notin> fst ` set ps \<Longrightarrow> distinct (map fst ps) \<Longrightarrow> distinct (map fst (insert_index i (k, v) ps))"
proof (induction ps)
  case Nil
  then show ?case by simp
next
  case (Cons p ps)
  from Cons.prems have k: "k \<noteq> fst p" "k \<notin> fst ` set ps"
    and d: "fst p \<notin> fst ` set ps" "distinct (map fst ps)"
    by auto
  from k d have "fst p \<notin> fst ` set (insert_index i (k, v) ps)"
    by (simp add: fst_insert_index)
  with Cons.IH [OF k(2) d(2)] k d show ?case
    by (auto split: option.splits)
qed

lemma map_of_insert_index:
  "k \<notin> fst ` set ps \<Longrightarrow> map_of (insert_index i (k, v) ps) x = (if x = k then Some v else map_of ps x)"
  by (induction ps) (auto split: option.splits)

lemma fst_insert_prop: "fst ` set (insert_prop ps k v) = insert k (fst ` set ps)"
  by (auto simp add: insert_prop_def fst_insert_index split: option.splits)

lemma distinct_insert_prop:
  "k \<notin> fst ` set ps \<Longrightarrow> distinct (map fst ps) \<Longrightarrow> distinct (map fst (insert_prop ps k v))"
  by (simp add: insert_prop_def distinct_insert_index split: option.splits)

lemma map_of_insert_prop:
  assumes "k \<notin> fst ` set ps"
  shows "map_of (insert_prop ps k v) x = (if x = k then Some v else map_of ps x)"
proof -
  from assms have "map_of ps k = None"
    by (simp add: map_of_eq_None_iff)
  with assms show ?thesis
    by (simp add: insert_prop_def map_of_insert_index map_add_def split: option.splits)
qed

lemma fst_define_prop: "fst ` set (define_prop ps k v) = insert k (fst ` set ps)"
proof (cases "has_key ps k")
  case True
  have "fst ` set (update_prop ps k v) = set (map fst (update_prop ps k v))" by simp
  also have "\<dots> = fst ` set ps" by (simp only: fst_update_prop) simp
  finally show ?thesis using True by (auto simp add: define_prop_def has_key_def)
next
  case False
  then show ?thesis by (simp add: define_prop_def fst_insert_prop)
qed

lemma distinct_define_prop:
  "distinct (map fst ps) \<Longrightarrow> distinct (map fst (define_prop ps k v))"
  by (simp add: define_prop_def fst_update_prop distinct_insert_prop has_key_def)

lemma map_of_define_prop:
  "map_of (define_prop ps k v) x = (if x = k then Some v else map_of ps x)"
proof (cases "has_key ps k")
  case True
  then have "map_of ps k \<noteq> None"
    by (simp add: has_key_def map_of_eq_None_iff)
  then obtain b where "map_of ps k = Some b"
    by blast
  with True show ?thesis by (simp add: define_prop_def map_of_update_prop)
next
  case False
  then show ?thesis by (simp add: define_prop_def map_of_insert_prop has_key_def)
qed


lemma spread_fold:
  "distinct (map fst acc) \<Longrightarrow>
   distinct (map fst (foldl (\<lambda>acc p. define_prop acc (fst p) (snd p)) acc ps))
   \<and> map_of (foldl (\<lambda>acc p. define_prop acc (fst p) (snd p)) acc ps) x =
       (case map_of (rev ps) x of Some v \<Rightarrow> Some v | None \<Rightarrow> map_of acc x)"
proof (induction ps arbitrary: acc)
  case Nil
  then show ?case by simp
next
  case (Cons p ps)
  from Cons.prems have "distinct (map fst (define_prop acc (fst p) (snd p)))"
    by (rule distinct_define_prop)
  from Cons.IH [OF this] show ?case
    by (cases p) (auto simp add: map_of_define_prop map_add_def split: option.splits)
qed

lemma spread_plain_object:
  "distinct (map fst (props (spread (JObject ps))))
   \<and> map_of (props (spread (JObject ps))) = map_of (rev ps)"
proof -
  have d: "distinct (map fst ([] :: (string \<times> jsval) list))" by simp
  have "map_of (props (spread (JObject ps))) x = map_of (rev ps) x" for x
    using spread_fold [OF d, of ps x] by (simp split: option.splits)
  then have "map_of (props (spread (JObject ps))) = map_of (rev ps)" by (rule ext)
  with spread_fold [OF d, of ps] show ?thesis by simp
qed

lemma set_prop_string:
  "proto obj = None \<Longrightarrow>
   set_prop obj k (JStr v) =
     Inr (if k = ''__proto__'' \<and> \<not> has_key (props obj) k then obj
          else obj\<lparr>props := define_prop (props obj) k (JStr v)\<rparr>)"
  by (simp add: set_prop_def define_prop_def is_object_def)

lemma forEach_assign_props:
  "proto obj = None \<Longrightarrow> distinct (map fst (props obj)) \<Longrightarrow> \<not> has_key (props obj) ''__proto__'' \<Longrightarrow>
   \<exists>obj'. forEach_assign es obj = Inr obj' \<and> proto obj' = None
     \<and> distinct (map fst (props obj')) \<and> \<not> has_key (props obj') ''__proto__''
     \<and> (\<forall>x. x \<noteq> ''__proto__'' \<longrightarrow> map_of (props obj') x =
          (case map_of (rev es) x of Some v \<Rightarrow> Some (JStr v) | None \<Rightarrow> map_of (props obj) x))"
proof (induction es arbitrary: obj)
  case Nil
  then show ?case by simp
next
  case (Cons e es)
  obtain k v where e: "e = (k, v)" by (cases e)
  define obj1 where "obj1 = (if k = ''__proto__'' then obj else obj\<lparr>props := define_prop (props obj) k (JStr v)\<rparr>)"
  from Cons.prems have s: "set_prop obj k (JStr v) = Inr obj1"
    by (simp add: set_prop_string obj1_def)
  from Cons.prems have p: "proto obj1 = None" and d: "distinct (map fst (props obj1))"
    and n: "\<not> has_key (props obj1) ''__proto__''"
    by (simp_all add: obj1_def distinct_define_prop has_key_def fst_define_prop)
  have m: "map_of (props obj1) x = (if x = k then Some (JStr v) else map_of (props obj) x)"
    if "x \<noteq> ''__proto__''" for x
    using that by (simp add: obj1_def map_of_define_prop)
  from Cons.IH [OF p d n] obtain obj' where r: "forEach_assign es obj1 = Inr obj'" "proto obj' = None"
    "distinct (map fst (props obj'))" "\<not> has_key (props obj') ''__proto__''"
    and v: "\<And>x. x \<noteq> ''__proto__'' \<Longrightarrow> map_of (props obj') x =
          (case map_of (rev es) x of Some v \<Rightarrow> Some (JStr v) | None \<Rightarrow> map_of (props obj1) x)"
    by blast
  have "map_of (props obj') x =
          (case map_of (rev (e # es)) x of Some v \<Rightarrow> Some (JStr v) | None \<Rightarrow> map_of (props obj) x)"
    if "x \<noteq> ''__proto__''" for x
    using v [OF that] m [OF that] e by (simp add: map_add_def split: option.splits)
  with r s e show ?case by simp
qed

subsection \<open>The fetch wrapper\<close>

lemma forEach_assign_total:
  "proto obj = None \<Longrightarrow> \<exists>obj'. forEach_assign es obj = Inr obj' \<and> proto obj' = None"
proof (induction es arbitrary: obj)
  case Nil
  then show ?case by simp
next
  case (Cons e es)
  obtain k v where e: "e = (k, v)" by (cases e)
  from Cons.prems have "\<exists>obj1. set_prop obj k (JStr v) = Inr obj1 \<and> proto obj1 = None"
    by (simp add: set_prop_string)
  then obtain obj1 where s: "set_prop obj k (JStr v) = Inr obj1" and p: "proto obj1 = None"
    by blast
  from Cons.IH [OF p] s e show ?case by simp
qed

text \<open>Building the header object never throws.\<close>

lemma extract_headers_total: "\<exists>hs. extract_headers config = Inr hs"
proof -
  have "proto empty_object = None" by (simp add: empty_object_def)
  from forEach_assign_total [OF this] show ?thesis
    by (auto simp add: extract_headers_def split: jsval.splits)
qed

text \<open>
  Building the request details throws exactly when the call
  \<^verbatim>\<open>resource.toString()\<close> does.
\<close>

lemma requestDetails_throws_iff:
  "(requestDetails now args = Inl e) = (call_toString (arg args 0) = Inl e)"
proof -
  obtain hs where "extract_headers (arg args 1) = Inr hs"
    using extract_headers_total by blast
  then show ?thesis
    by (cases "call_toString (arg args 0)")
      (auto simp add: requestDetails_def resolve_url_def Let_def split: jsval.splits)
qed

text \<open>
  Claim C1, as the code has it.  The wrapper has no handler: the original
  \<^verbatim>\<open>fetch\<close> is called, and then with the unmodified argument list, exactly when
  building the request details and rendering them complete without an exception.
  An exception raised there leaves the wrapper and the original is not called.
\<close>

theorem wrapped_fetch_forwards_iff:
  "(snd (wrapped_fetch w now args s) = Forwarded a) =
   (a = args \<and>
    (\<exists>r. requestDetails now args = Inr r \<and>
       snd (render w (snd (alloc (fst s) r))
              ((snd s)\<lparr>lastRequest := Some (fst (alloc (fst s) r))\<rparr>)) = None))"
  by (auto simp add: wrapped_fetch_def Let_def split: sum.splits prod.splits option.splits)

theorem wrapped_fetch_forwards_iff_witness:
  "snd (wrapped_fetch \<lparr>hljs = False\<rparr> 0 [JStr ''/x''] (new_store, new_display)) =
     Forwarded [JStr ''/x'']"
  using wrapped_fetch_forwards_iff
    [of "\<lparr>hljs = False\<rparr>" 0 "[JStr ''/x'']" "(new_store, new_display)" "[JStr ''/x'']"]
  by (simp add: fetch_defs render_defs new_store_def new_display_def)

text \<open>
  \<^verbatim>\<open>fetch(null)\<close>: the call \<^verbatim>\<open>resource.toString()\<close> of line 83 throws, the
  wrapped call is rejected and the original \<^verbatim>\<open>fetch\<close> is not called.
\<close>

theorem wrapped_fetch_null_resource:
  "snd (wrapped_fetch \<lparr>hljs = False\<rparr> 0 [JNull] (new_store, new_display)) = Threw TypeError"
  by (simp add: fetch_defs)

text \<open>
  An exception in \<^verbatim>\<open>render\<close> has the same effect, after the request has become
  the last request: in \<^verbatim>\<open>fetch("/x", {method: {toString: null}})\<close> the template
  literal of line 208 cannot convert the method.
\<close>

lemma wrapped_fetch_render_throws:
  "wrapped_fetch w now [JStr ''/x'', JObject [(''method'', JObject [(''toString'', JNull)])]]
     (new_store, new_display) =
   ((\<lparr>cells = (\<lambda>a. unallocated)
        (0 := \<lparr>method = JObject [(''toString'', JNull)], url = JStr ''/x'',
               headers = empty_object, body = JUndefined, timestamp = now\<rparr>),
      fresh = 1\<rparr>,
     \<lparr>lastRequest = Some 0, container = EmptyState\<rparr>),
    Threw TypeError)"
  by (simp add: fetch_defs render_defs new_store_def new_display_def has_key_def)

text \<open>
  Claim C2.  The call
  \<^verbatim>\<open>fetch("/api", {method: "POST", headers: {"X-Test": "1"}, body: "hello"})\<close>
  stores a request with method \<^verbatim>\<open>POST\<close>, url \<^verbatim>\<open>/api\<close>, the one header
  \<^verbatim>\<open>X-Test: 1\<close> and body \<^verbatim>\<open>hello\<close>, makes it the last request, renders the text
  \<^verbatim>\<open>POST /api HTTP/1.1\nX-Test: 1\n\nhello\<close>, and calls the original with the same
  arguments.
\<close>

theorem fetch_post_scenario:
  fixes w :: env and now :: nat and st :: store and d :: display
  defines "args \<equiv>
    [JStr ''/api'',
     JObject [(''method'', JStr ''POST''),
              (''headers'', JObject [(''X-Test'', JStr ''1'')]),
              (''body'', JStr ''hello'')]]"
  defines "r \<equiv>
    \<lparr>method = JStr ''POST'', url = JStr ''/api'',
     headers = \<lparr>props = [(''X-Test'', JStr ''1'')], proto = None\<rparr>,
     body = JStr ''hello'', timestamp = now\<rparr>"
  shows "wrapped_fetch w now args (st, d) =
    ((st\<lparr>cells := (cells st)(fresh st := r), fresh := fresh st + 1\<rparr>,
      d\<lparr>lastRequest := Some (fresh st),
        container := HttpMessage
          (''POST /api HTTP/1.1'' @ [LF] @ ''X-Test: 1'' @ [LF, LF] @ ''hello'') (hljs w) now\<rparr>),
     Forwarded args)"
  unfolding args_def r_def
  by (simp add: fetch_defs render_defs key_defs string_defs)

text \<open>
  Claim C3.  When the options bag is absent (\<^verbatim>\<open>undefined\<close> or \<^verbatim>\<open>null\<close>) or is
  an object without a \<^verbatim>\<open>method\<close> property, and the resource can be turned into
  a string, the request details are built and their method is \<^verbatim>\<open>GET\<close>.
\<close>

theorem fetch_method_defaults_to_GET:
  assumes "arg args 1 = JUndefined \<or> arg args 1 = JNull
           \<or> (\<exists>ps. arg args 1 = JObject ps \<and> \<not> has_key ps ''method'')"
      and "resolve_url (arg args 0) = Inr u"
  shows "\<exists>r. requestDetails now args = Inr r \<and> method r = JStr ''GET''"
proof -
  from assms(1) have m: "opt_get (arg args 1) ''method'' = JUndefined"
    by (auto simp add: opt_get_def has_key_def map_of_eq_None_iff [THEN iffD2]
        split: option.splits)
  obtain hs where "extract_headers (arg args 1) = Inr hs"
    using extract_headers_total by blast
  with m assms(2) show ?thesis
    by (simp add: requestDetails_def)
qed

theorem fetch_method_defaults_to_GET_witness:
  "(\<exists>r. requestDetails 0 [JStr ''/x''] = Inr r \<and> method r = JStr ''GET'')
   \<and> (\<exists>r. requestDetails 0 [JStr ''/x'', JObject [(''body'', JStr ''b'')]] = Inr r
          \<and> method r = JStr ''GET'')"
  using fetch_method_defaults_to_GET [of "[JStr ''/x'']" "''/x''" 0]
    fetch_method_defaults_to_GET
      [of "[JStr ''/x'', JObject [(''body'', JStr ''b'')]]" "''/x''" 0]
  by (simp add: arg_def resolve_url_def has_key_def)

text \<open>
  Claim C10.  When the options bag has a \<^verbatim>\<open>method\<close> property whose value is
  falsy (the empty string, \<^verbatim>\<open>false\<close>, \<^verbatim>\<open>null\<close>, \<^verbatim>\<open>undefined\<close>), the method of
  the request details is \<^verbatim>\<open>GET\<close> and not the value supplied.
\<close>

theorem fetch_falsy_method_is_GET:
  assumes "arg args 1 = JObject ps"
      and "map_of ps ''method'' = Some m"
      and "\<not> truthy m"
      and "resolve_url (arg args 0) = Inr u"
  shows "\<exists>r. requestDetails now args = Inr r \<and> method r = JStr ''GET'' \<and> method r \<noteq> m"
proof -
  from assms(1,2) have m: "opt_get (arg args 1) ''method'' = m"
    by (simp add: opt_get_def)
  obtain hs where "extract_headers (arg args 1) = Inr hs"
    using extract_headers_total by blast
  moreover from assms(3) have "m \<noteq> JStr ''GET''"
    by auto
  ultimately show ?thesis
    using m assms(3,4) by (simp add: requestDetails_def)
qed

theorem fetch_falsy_method_is_GET_witness:
  "\<exists>r. requestDetails 0 [JStr ''/x'', JObject [(''method'', JStr [])]] = Inr r
        \<and> method r = JStr ''GET'' \<and> method r \<noteq> JStr []"
  using fetch_falsy_method_is_GET
    [of "[JStr ''/x'', JObject [(''method'', JStr [])]]" "[(''method'', JStr [])]"
        "JStr []" "''/x''" 0]
  by (simp add: arg_def resolve_url_def)

subsection \<open>Header normalisation\<close>

text \<open>The collection is tested first, then the type; any other value gives no header.\<close>

lemma extract_headers_collection:
  assumes "opt_get config ''headers'' = JHeaders es"
  shows "extract_headers config = forEach_assign es empty_object"
  using assms by (simp add: extract_headers_def)

lemma extract_headers_plain_object:
  assumes "opt_get config ''headers'' = JObject ps"
  shows "extract_headers config = Inr (spread (JObject ps))"
  using assms by (simp add: extract_headers_def)

lemma extract_headers_other:
  assumes "\<not> truthy (opt_get config ''headers'') \<or> \<not> is_object (opt_get config ''headers'')"
  shows "extract_headers config = Inr empty_object"
  using assms
  by (cases "opt_get config ''headers''") (auto simp add: extract_headers_def is_object_def)

text \<open>
  The entries of a collection end up as one own property for each name, with the
  value of the last entry of that name; the name \<^verbatim>\<open>__proto__\<close> is the exception
  and gets none.
\<close>

lemma headers_of_collection:
  assumes "opt_get config ''headers'' = JHeaders es"
  shows "\<exists>hs. extract_headers config = Inr hs \<and> distinct (map fst (props hs))
           \<and> \<not> has_key (props hs) ''__proto__''
           \<and> (\<forall>x. x \<noteq> ''__proto__'' \<longrightarrow>
                 map_of (props hs) x = map_option JStr (map_of (rev es) x))"
proof -
  have "proto empty_object = None" "distinct (map fst (props empty_object))"
    "\<not> has_key (props empty_object) ''__proto__''"
    by (simp_all add: empty_object_def has_key_def)
  from forEach_assign_props [OF this, of es] obtain hs where
    h: "forEach_assign es empty_object = Inr hs" "distinct (map fst (props hs))"
       "\<not> has_key (props hs) ''__proto__''"
    and v: "\<And>x. x \<noteq> ''__proto__'' \<Longrightarrow> map_of (props hs) x =
          (case map_of (rev es) x of Some v \<Rightarrow> Some (JStr v)
           | None \<Rightarrow> map_of (props empty_object) x)"
    by blast
  have "map_of (props hs) x = map_option JStr (map_of (rev es) x)" if "x \<noteq> ''__proto__''" for x
    using v [OF that] by (simp add: empty_object_def split: option.splits)
  with h assms show ?thesis
    by (simp add: extract_headers_collection)
qed

text \<open>
  The own properties of a plain object are all copied, \<^verbatim>\<open>__proto__\<close> included:
  one own property for each name.
\<close>

lemma headers_of_plain_object:
  assumes "opt_get config ''headers'' = JObject ps"
  shows "\<exists>hs. extract_headers config = Inr hs \<and> distinct (map fst (props hs))
           \<and> map_of (props hs) = map_of (rev ps)"
  using assms spread_plain_object [of ps] by (simp add: extract_headers_plain_object)

text \<open>
  Claim C4, where the code departs from it.  For the options bag
  \<^verbatim>\<open>{headers: new Headers([["__proto__", "1"]])}\<close> the assignment
  \<^verbatim>\<open>headers[key] = value\<close> of line 73 reaches the setter that
  \<^verbatim>\<open>Object.prototype\<close> has for \<^verbatim>\<open>__proto__\<close>, which ignores a string: the request
  details have no header at all.  The sibling branch for a plain object with the
  same entry, \<^verbatim>\<open>{headers: JSON.parse('{"__proto__": "1"}')}\<close>, keeps it.
\<close>

theorem headers_collection_drops_proto_key:
  "requestDetails now [JStr ''/x'', JObject [(''headers'', JHeaders [(''__proto__'', ''1'')])]] =
     Inr \<lparr>method = JStr ''GET'', url = JStr ''/x'',
          headers = \<lparr>props = [], proto = None\<rparr>, body = JUndefined, timestamp = now\<rparr>
   \<and> requestDetails now
       [JStr ''/x'', JObject [(''headers'', JObject [(''__proto__'', JStr ''1'')])]] =
     Inr \<lparr>method = JStr ''GET'', url = JStr ''/x'',
          headers = \<lparr>props = [(''__proto__'', JStr ''1'')], proto = None\<rparr>,
          body = JUndefined, timestamp = now\<rparr>"
  by (simp add: fetch_defs set_prop_def is_object_def key_defs)

subsection \<open>The XMLHttpRequest wrappers\<close>

text \<open>
  Claim C7.  On one object, \<^verbatim>\<open>open("GET", "/x")\<close>,
  \<^verbatim>\<open>setRequestHeader("A", "1")\<close>, \<^verbatim>\<open>setRequestHeader("B", "2")\<close> and
  \<^verbatim>\<open>send(null)\<close>, with the component in the document, deliver to the component a
  request whose headers are \<^verbatim>\<open>A: 1\<close> and \<^verbatim>\<open>B: 2\<close> in this order and whose body
  is \<^verbatim>\<open>null\<close>; the rendered text ends with the headers, and \<^verbatim>\<open>formatBody(null)\<close>
  is \<^verbatim>\<open>null\<close>, so there is no body section.
\<close>

theorem xhr_scenario:
  fixes w :: env and st :: store and d :: display and t :: nat
  defines "s1 \<equiv> fst (xhr_open t [JStr ''GET'', JStr ''/x''] (st, new_xhr))"
  defines "s2 \<equiv> fst (xhr_setRequestHeader [JStr ''A'', JStr ''1''] s1)"
  defines "s3 \<equiv> fst (xhr_setRequestHeader [JStr ''B'', JStr ''2''] s2)"
  shows "xhr_send w [JNull] (fst s3, snd s3, Some d) =
      ((st\<lparr>cells := (cells st)(fresh st :=
              \<lparr>method = JStr ''GET'', url = JStr ''/x'',
               headers = \<lparr>props = [(''A'', JStr ''1''), (''B'', JStr ''2'')], proto = None\<rparr>,
               body = JNull, timestamp = t\<rparr>),
            fresh := fresh st + 1\<rparr>,
        \<lparr>xhr_requestDetails = Some (fresh st)\<rparr>,
        Some (d\<lparr>lastRequest := Some (fresh st),
                container := HttpMessage
                  (''GET /x HTTP/1.1'' @ [LF] @ ''A: 1'' @ [LF] @ ''B: 2'') (hljs w) t\<rparr>)),
       Forwarded [JNull])
    \<and> formatBody JNull = Inr None"
  unfolding s3_def s2_def s1_def
  by (simp add: xhr_open_def xhr_setRequestHeader_def xhr_send_def new_xhr_def alloc_def arg_def
      set_prop_def empty_object_def render_defs key_defs string_defs)

text \<open>
  Claim C8.  On an object on which \<^verbatim>\<open>open\<close> was never called,
  \<^verbatim>\<open>setRequestHeader\<close> and \<^verbatim>\<open>send\<close> change neither the store nor the object nor
  the component, raise nothing of their own, and hand their arguments on to the
  original methods.
\<close>

theorem xhr_without_open:
  "xhr_setRequestHeader args (st, new_xhr) = ((st, new_xhr), Forwarded args)
   \<and> xhr_send w args (st, new_xhr, component) = ((st, new_xhr, component), Forwarded args)"
  by (simp add: xhr_setRequestHeader_def xhr_send_def new_xhr_def)

end
